theory Spec2Isabelle
  imports Complex_Main
begin

section \<open>Strings\<close>

text \<open>
  A C\# string is a sequence of UTF-16 code units; a code unit is modelled by its number.
  On every path below a null string behaves as the empty one does
  (\<open>IsNullOrWhiteSpace\<close> holds of both, a \<open>switch\<close> on either matches no icon,
  concatenation treats null as empty), so null is represented by \<open>[]\<close>.
\<close>

type_synonym ustring = "nat list"

definition ustr :: "string \<Rightarrow> ustring" where
  "ustr s = map of_char s"

text \<open>
  \<open>char.IsWhiteSpace\<close> of the .NET runtime: the separator categories Zs, Zl and Zp,
  the controls U+0009 to U+000D and U+0085.
\<close>

definition IsWhiteSpace :: "nat \<Rightarrow> bool" where
  "IsWhiteSpace c =
     ((9 \<le> c \<and> c \<le> 13) \<or> c = 32 \<or> c = 133 \<or> c = 160 \<or> c = 5760 \<or>
      (8192 \<le> c \<and> c \<le> 8202) \<or> c = 8232 \<or> c = 8233 \<or> c = 8239 \<or>
      c = 8287 \<or> c = 12288)"

definition IsNullOrWhiteSpace :: "ustring \<Rightarrow> bool" where
  "IsNullOrWhiteSpace s = list_all IsWhiteSpace s"

section \<open>Language resolution\<close>

text \<open>
  \<open>HasHebrewCharacters\<close> is a match of the pattern \<^verbatim>\<open>^[^a-zA-Z]*[U+0591-U+05F4]\<close> against \<open>words\<close>.
  The pattern is anchored at the start of the input. The engine lets the greedy star take
  the longest run of characters outside \<open>a-z\<close> and \<open>A-Z\<close>, tries the class
  of U+0591 to U+05F4 at the position after the run, and gives the star's characters back
  one at a time until the class matches or nothing is left to give back.
\<close>

definition latin_letter :: "nat \<Rightarrow> bool" where
  "latin_letter c = ((97 \<le> c \<and> c \<le> 122) \<or> (65 \<le> c \<and> c \<le> 90))"

definition hebrew_char :: "nat \<Rightarrow> bool" where
  "hebrew_char c = (1425 \<le> c \<and> c \<le> 1524)"

definition class_at :: "ustring \<Rightarrow> nat \<Rightarrow> bool" where
  "class_at words i = (i < length words \<and> hebrew_char (words ! i))"

fun backtrack :: "ustring \<Rightarrow> nat \<Rightarrow> bool" where
  "backtrack words 0 = class_at words 0"
| "backtrack words (Suc i) = (class_at words (Suc i) \<or> backtrack words i)"

definition HasHebrewCharacters :: "ustring \<Rightarrow> bool" where
  "HasHebrewCharacters words =
     backtrack words (length (takeWhile (\<lambda>c. \<not> latin_letter c) words))"

definition GetLanguage :: "ustring \<Rightarrow> ustring \<Rightarrow> ustring" where
  "GetLanguage value language =
     (if IsNullOrWhiteSpace value then language
      else if HasHebrewCharacters value = False then ustr ''en''
      else ustr ''he'')"

text \<open>
  The pattern as the specification words it: at some position stands a character of the
  Hebrew range U+0591 to U+05F4, and only non-Latin-letter characters stand before it.
\<close>

definition anchored_hebrew_pattern :: "ustring \<Rightarrow> bool" where
  "anchored_hebrew_pattern value =
     list_ex (\<lambda>i. hebrew_char (value ! i) \<and> list_all (\<lambda>c. \<not> latin_letter c) (take i value))
       [0..<length value]"

section \<open>Tag collections\<close>

text \<open>
  \<open>TagsCollection\<close> is the tag container of the OsmSharp library, a dictionary from key
  to tag. It is modelled by the list of its tags in enumeration order:
  \<open>Add\<close> raises \<open>ArgumentException\<close> on a key that is present and appends otherwise,
  the indexer's setter replaces the value of a present key and appends otherwise,
  \<open>RemoveKeyValue\<close> removes the entry of the key when it holds the given value, and
  \<open>ElementAt\<close> raises out of range. A dictionary holds each key once: \<open>wf_tags\<close>.
\<close>

datatype error =
    ArgumentException
  | ArgumentOutOfRangeException
  | FormatException
  | NullReferenceException
  | GatewayError nat

type_synonym tag = "ustring \<times> ustring"
type_synonym tags = "tag list"

definition wf_tags :: "tags \<Rightarrow> bool" where
  "wf_tags tags = distinct (map fst tags)"

definition ContainsKey :: "tags \<Rightarrow> ustring \<Rightarrow> bool" where
  "ContainsKey tags key = (map_of tags key \<noteq> None)"

definition Add :: "tags \<Rightarrow> ustring \<Rightarrow> ustring \<Rightarrow> error + tags" where
  "Add tags key value =
     (if ContainsKey tags key then Inl ArgumentException else Inr (tags @ [(key, value)]))"

definition set_Item :: "tags \<Rightarrow> ustring \<Rightarrow> ustring \<Rightarrow> tags" where
  "set_Item tags key value =
     (if ContainsKey tags key
      then map (\<lambda>t. if fst t = key then (key, value) else t) tags
      else tags @ [(key, value)])"

definition RemoveKeyValue :: "tags \<Rightarrow> tag \<Rightarrow> tags" where
  "RemoveKeyValue tags t =
     (if map_of tags (fst t) = Some (snd t) then filter (\<lambda>p. fst p \<noteq> fst t) tags else tags)"

definition ElementAt :: "tags \<Rightarrow> nat \<Rightarrow> error + tag" where
  "ElementAt tags i =
     (if i < length tags then Inr (tags ! i) else Inl ArgumentOutOfRangeException)"

section \<open>The tag reconciler\<close>

text \<open>
  A step that may raise, followed by the rest of the method: an exception ends the method.
\<close>

definition orRaise :: "error + 'a \<Rightarrow> ('a \<Rightarrow> error + 'b) \<Rightarrow> error + 'b" where
  "orRaise r f = (case r of Inl e \<Rightarrow> Inl e | Inr x \<Rightarrow> f x)"

record options =
  DefaultLanguage :: ustring

text \<open>
  In \<open>SetTagByLanguage\<close>, \<open>writeQualified\<close> is the code from line 169 to the end of the
  method. A \<open>return\<close> of the source is a branch that does not go on to it.
\<close>

definition SetTagByLanguage ::
  "options \<Rightarrow> tags \<Rightarrow> ustring \<Rightarrow> ustring \<Rightarrow> ustring \<Rightarrow> error + tags" where
  "SetTagByLanguage opts tags key value language0 =
     (let language = GetLanguage value language0;
          keyWithLanguage = key @ ustr '':'' @ language;
          writeQualified = (\<lambda>tags1.
            if ContainsKey tags1 keyWithLanguage
            then Inr (set_Item tags1 keyWithLanguage value)
            else Add tags1 keyWithLanguage value)
      in if language = DefaultLanguage opts
         then (if ContainsKey tags key
               then Inr (set_Item tags key value)
               else orRaise (Add tags key value) writeQualified)
         else writeQualified tags)"

definition UpdateTagsByIcon :: "tags \<Rightarrow> ustring \<Rightarrow> error + tags" where
  "UpdateTagsByIcon tags icon =
     (if icon = ustr ''icon-viewpoint'' then Add tags (ustr ''tourism'') (ustr ''viewpoint'')
      else if icon = ustr ''icon-tint'' then Add tags (ustr ''natural'') (ustr ''spring'')
      else if icon = ustr ''icon-ruins'' then Add tags (ustr ''historic'') (ustr ''ruins'')
      else if icon = ustr ''icon-picnic'' then Add tags (ustr ''tourism'') (ustr ''picnic_site'')
      else if icon = ustr ''icon-campsite'' then Add tags (ustr ''tourism'') (ustr ''camp_site'')
      else if icon = ustr ''icon-tree'' then Add tags (ustr ''natural'') (ustr ''tree'')
      else if icon = ustr ''icon-cave'' then Add tags (ustr ''natural'') (ustr ''cave_entrance'')
      else if icon = ustr ''icon-star'' then Add tags (ustr ''tourism'') (ustr ''attraction'')
      else if icon = ustr ''icon-peak'' then Add tags (ustr ''natural'') (ustr ''peak'')
      else Inr tags)"

text \<open>
  \<open>RemoveEmptyTags\<close> counts \<open>i\<close> down from \<open>Count - 1\<close> to \<open>0\<close>; the second argument
  of the loop is \<open>i + 1\<close>, the number of indices still to visit.
\<close>

fun RemoveEmptyTags_loop :: "tags \<Rightarrow> nat \<Rightarrow> error + tags" where
  "RemoveEmptyTags_loop tags 0 = Inr tags"
| "RemoveEmptyTags_loop tags (Suc i) =
     (case ElementAt tags i of
        Inl e \<Rightarrow> Inl e
      | Inr currentTag \<Rightarrow>
          RemoveEmptyTags_loop
            (if IsNullOrWhiteSpace (snd currentTag) then RemoveKeyValue tags currentTag
             else tags) i)"

definition RemoveEmptyTags :: "tags \<Rightarrow> error + tags" where
  "RemoveEmptyTags tags = RemoveEmptyTags_loop tags (length tags)"

section \<open>Data model\<close>

text \<open>
  Modelled from the spec: the tag keys of \<open>FeatureAttributes\<close>, a class of constants
  declared outside the sources at hand. The specification names the base keys \<open>name\<close>
  and \<open>description\<close>; the image and the url of a point of interest go to the OSM keys
  \<open>image\<close> and \<open>website\<close>.
\<close>

definition NAME :: ustring where "NAME = ustr ''name''"
definition DESCRIPTION :: ustring where "DESCRIPTION = ustr ''description''"
definition IMAGE_URL :: ustring where "IMAGE_URL = ustr ''image''"
definition WEBSITE :: ustring where "WEBSITE = ustr ''website''"

record PointOfInterestExtended =
  Id :: ustring
  Title :: ustring
  Description :: ustring
  ImageUrl :: ustring
  Url :: ustring
  Icon :: ustring
  Location :: "real \<times> real"

datatype OsmGeoType = Node | Way | Relation

record OsmGeo =
  GeoType :: OsmGeoType
  OsmId :: "int option"
  Latitude :: "real option"
  Longitude :: "real option"
  Tags :: tags

datatype geometry = Point | LineString | Polygon | OtherGeometry

text \<open>
  A feature of the search index: its geometry kind and its \<open>icon\<close> attribute, absent
  when the attribute table has no such entry; reading it at line 122 then raises.
\<close>

record Feature =
  Geometry :: geometry
  IconAttribute :: "ustring option"

section \<open>Collaborators and the trace of their calls\<close>

text \<open>
  The gateways, the preprocessor and \<open>long.Parse\<close> are outside the adapter. Each is a
  function from the arguments of a call to its outcome, \<open>Inl\<close> an exception. Every
  operation below calls each of them at most once, so an outcome that depended on earlier
  calls would add nothing. A reply of null raises \<open>NullReferenceException\<close> at its first
  use, before any further call, and is an \<open>Inl\<close> outcome here; so is an element whose
  tag collection is null. \<open>Preprocess\<close> yields the first feature of the first list of
  its result, if there is one. The credentials only select the gateway and are left out.
\<close>

record collaborators =
  CreateChangeset :: "ustring \<Rightarrow> error + ustring"
  CreateElement :: "ustring \<Rightarrow> OsmGeo \<Rightarrow> error + ustring"
  UpdateElement :: "ustring \<Rightarrow> OsmGeo \<Rightarrow> error + unit"
  CloseChangeset :: "ustring \<Rightarrow> error + unit"
  GetNode :: "ustring \<Rightarrow> error + OsmGeo"
  GetCompleteWay :: "ustring \<Rightarrow> error + OsmGeo"
  GetCompleteRelation :: "ustring \<Rightarrow> error + OsmGeo"
  GetPointOfInterestById :: "ustring \<Rightarrow> error + Feature"
  Preprocess :: "ustring \<Rightarrow> OsmGeo \<Rightarrow> error + Feature option"
  UpdateNamesData :: "Feature \<Rightarrow> error + unit"
  long_Parse :: "ustring \<Rightarrow> error + int"

datatype call =
    Call_CreateChangeset ustring
  | Call_CreateElement ustring OsmGeo
  | Call_UpdateElement ustring OsmGeo
  | Call_CloseChangeset ustring
  | Call_GetNode ustring
  | Call_GetCompleteWay ustring
  | Call_GetCompleteRelation ustring
  | Call_GetPointOfInterestById ustring
  | Call_UpdateNamesData Feature

text \<open>
  A task yields the calls it made to the gateways, in order, and its outcome. An exception
  ends the task where it is raised: the source has no handler and no \<open>finally\<close> block.
\<close>

type_synonym 'a task = "call list \<times> (error + 'a)"

definition andThen :: "'a task \<Rightarrow> ('a \<Rightarrow> 'b task) \<Rightarrow> 'b task" where
  "andThen m f =
     (case m of
        (calls, Inl e) \<Rightarrow> (calls, Inl e)
      | (calls, Inr x) \<Rightarrow> (case f x of (calls', outcome) \<Rightarrow> (calls @ calls', outcome)))"

definition invoke :: "call \<Rightarrow> error + 'a \<Rightarrow> 'a task" where
  "invoke c outcome = ([c], outcome)"

definition local_step :: "error + 'a \<Rightarrow> 'a task" where
  "local_step outcome = ([], outcome)"

section \<open>The adapter\<close>

definition UpdateElasticSearch :: "collaborators \<Rightarrow> OsmGeo \<Rightarrow> ustring \<Rightarrow> unit task" where
  "UpdateElasticSearch env osm name =
     andThen (local_step (Preprocess env name osm)) (\<lambda>feature.
       case feature of
         None \<Rightarrow> local_step (Inr ())
       | Some f \<Rightarrow> invoke (Call_UpdateNamesData f) (UpdateNamesData env f))"

text \<open>Lines 81 to 90 of \<open>AddPointOfInterest\<close>: the tags of the new node.\<close>

definition AddPointOfInterest_tags ::
  "options \<Rightarrow> PointOfInterestExtended \<Rightarrow> ustring \<Rightarrow> error + tags" where
  "AddPointOfInterest_tags opts pointOfInterest language =
     orRaise (Add [] IMAGE_URL (ImageUrl pointOfInterest)) (\<lambda>t0.
     orRaise (Add t0 WEBSITE (Url pointOfInterest)) (\<lambda>t1.
     orRaise (SetTagByLanguage opts t1 NAME (Title pointOfInterest) language) (\<lambda>t2.
     orRaise (SetTagByLanguage opts t2 DESCRIPTION (Description pointOfInterest) language) (\<lambda>t3.
     orRaise (UpdateTagsByIcon t3 (Icon pointOfInterest)) (\<lambda>t4.
     RemoveEmptyTags t4)))))"

definition addComment :: ustring where
  "addComment = ustr ''Add POI interface from IHM site.''"

definition updateComment :: ustring where
  "updateComment = ustr ''Update POI interface from IHM site.''"

definition AddPointOfInterest ::
  "collaborators \<Rightarrow> options \<Rightarrow> PointOfInterestExtended \<Rightarrow> ustring \<Rightarrow> unit task" where
  "AddPointOfInterest env opts pointOfInterest language =
     andThen (invoke (Call_CreateChangeset addComment) (CreateChangeset env addComment))
       (\<lambda>changesetId.
     andThen (local_step (AddPointOfInterest_tags opts pointOfInterest language)) (\<lambda>nodeTags.
     let node = \<lparr> GeoType = Node, OsmId = None,
                   Latitude = Some (fst (Location pointOfInterest)),
                   Longitude = Some (snd (Location pointOfInterest)),
                   Tags = nodeTags \<rparr> in
     andThen (invoke (Call_CreateElement changesetId node)
                (CreateElement env changesetId node)) (\<lambda>elementId.
     andThen (local_step (long_Parse env elementId)) (\<lambda>n.
     andThen (invoke (Call_CloseChangeset changesetId) (CloseChangeset env changesetId)) (\<lambda>_.
     UpdateElasticSearch env (node\<lparr>OsmId := Some n\<rparr>) (Title pointOfInterest))))))"

text \<open>
  Lines 118 to 121 of \<open>UpdatePointOfInterest\<close>: the writes of name, description, image
  and website into the tags of the fetched element.
\<close>

definition UpdatePointOfInterest_writes ::
  "options \<Rightarrow> PointOfInterestExtended \<Rightarrow> tags \<Rightarrow> ustring \<Rightarrow> error + tags" where
  "UpdatePointOfInterest_writes opts pointOfInterest tags language =
     orRaise (SetTagByLanguage opts tags NAME (Description pointOfInterest) language) (\<lambda>t1.
     orRaise (SetTagByLanguage opts t1 DESCRIPTION (Description pointOfInterest) language) (\<lambda>t2.
     Inr (set_Item (set_Item t2 IMAGE_URL (ImageUrl pointOfInterest))
            WEBSITE (Url pointOfInterest))))"

text \<open>Lines 118 to 127: the writes, the icon step and the removal of empty tags.\<close>

definition UpdatePointOfInterest_tags ::
  "options \<Rightarrow> PointOfInterestExtended \<Rightarrow> Feature \<Rightarrow> tags \<Rightarrow> ustring \<Rightarrow> error + tags" where
  "UpdatePointOfInterest_tags opts pointOfInterest feature tags language =
     orRaise (UpdatePointOfInterest_writes opts pointOfInterest tags language) (\<lambda>t4.
     orRaise (case IconAttribute feature of
                None \<Rightarrow> Inl NullReferenceException
              | Some stored \<Rightarrow>
                  if Icon pointOfInterest \<noteq> stored
                  then UpdateTagsByIcon t4 (Icon pointOfInterest)
                  else Inr t4) (\<lambda>t5.
     RemoveEmptyTags t5))"

definition fetchElement :: "collaborators \<Rightarrow> Feature \<Rightarrow> ustring \<Rightarrow> OsmGeo task" where
  "fetchElement env feature elementId =
     (if Geometry feature = Point then invoke (Call_GetNode elementId) (GetNode env elementId)
      else if Geometry feature = LineString \<or> Geometry feature = Polygon
      then invoke (Call_GetCompleteWay elementId) (GetCompleteWay env elementId)
      else invoke (Call_GetCompleteRelation elementId) (GetCompleteRelation env elementId))"

text \<open>The one call that \<open>fetchElement\<close> makes.\<close>

definition fetch_call :: "Feature \<Rightarrow> ustring \<Rightarrow> call" where
  "fetch_call feature elementId =
     (if Geometry feature = Point then Call_GetNode elementId
      else if Geometry feature = LineString \<or> Geometry feature = Polygon
      then Call_GetCompleteWay elementId
      else Call_GetCompleteRelation elementId)"

definition UpdatePointOfInterest ::
  "collaborators \<Rightarrow> options \<Rightarrow> PointOfInterestExtended \<Rightarrow> ustring \<Rightarrow> unit task" where
  "UpdatePointOfInterest env opts pointOfInterest language =
     andThen (invoke (Call_GetPointOfInterestById (Id pointOfInterest))
                (GetPointOfInterestById env (Id pointOfInterest))) (\<lambda>feature.
     andThen (fetchElement env feature (Id pointOfInterest)) (\<lambda>fetched.
     andThen (local_step
                (UpdatePointOfInterest_tags opts pointOfInterest feature (Tags fetched) language))
       (\<lambda>newTags.
     let completeOsmGeo = fetched\<lparr>Tags := newTags\<rparr> in
     andThen (invoke (Call_CreateChangeset updateComment) (CreateChangeset env updateComment))
       (\<lambda>changesetId.
     andThen (invoke (Call_UpdateElement changesetId completeOsmGeo)
                (UpdateElement env changesetId completeOsmGeo)) (\<lambda>_.
     andThen (invoke (Call_CloseChangeset changesetId) (CloseChangeset env changesetId)) (\<lambda>_.
     UpdateElasticSearch env completeOsmGeo (Title pointOfInterest)))))))"

section \<open>Well-formed replies\<close>

text \<open>
  The element that the gateway returns for an identifier carries a dictionary of tags,
  whichever of the three fetches is used.
\<close>

definition tags_ok :: "error + OsmGeo \<Rightarrow> bool" where
  "tags_ok reply = (case reply of Inl e \<Rightarrow> True | Inr element \<Rightarrow> wf_tags (Tags element))"

definition fetched_wf :: "collaborators \<Rightarrow> ustring \<Rightarrow> bool" where
  "fetched_wf env elementId =
     (tags_ok (GetNode env elementId) \<and> tags_ok (GetCompleteWay env elementId) \<and>
      tags_ok (GetCompleteRelation env elementId))"

section \<open>Keys of the icon vocabulary\<close>

text \<open>The keys that \<open>UpdateTagsByIcon\<close> writes.\<close>

definition category_key :: "ustring \<Rightarrow> bool" where
  "category_key k = (k = ustr ''tourism'' \<or> k = ustr ''natural'' \<or> k = ustr ''historic'')"


section \<open>Example data\<close>

definition kinneret :: ustring where
  "kinneret = [1492, 1499, 1504, 1512, 1514]"

definition opts_he :: options where
  "opts_he = \<lparr> DefaultLanguage = ustr ''he'' \<rparr>"

definition poi_kinneret :: PointOfInterestExtended where
  "poi_kinneret =
     \<lparr> Id = ustr ''17'', Title = kinneret, Description = [], ImageUrl = [], Url = [],
       Icon = [], Location = (32, 34.8) \<rparr>"

definition poi_mount :: PointOfInterestExtended where
  "poi_mount =
     \<lparr> Id = ustr ''17'', Title = ustr ''Mount'', Description = ustr ''High'', ImageUrl = [],
       Url = [], Icon = ustr ''icon-viewpoint'', Location = (32, 34.8) \<rparr>"

definition poi_peak :: PointOfInterestExtended where
  "poi_peak = poi_mount\<lparr>Icon := ustr ''icon-peak''\<rparr>"

definition tags_spring :: tags where
  "tags_spring = [(ustr ''name'', ustr ''Old''), (ustr ''natural'', ustr ''spring'')]"

definition element_spring :: OsmGeo where
  "element_spring =
     \<lparr> GeoType = Node, OsmId = Some 17, Latitude = Some 32, Longitude = Some 34.8,
       Tags = tags_spring \<rparr>"

definition feature_tint :: Feature where
  "feature_tint = \<lparr> Geometry = Point, IconAttribute = Some (ustr ''icon-tint'') \<rparr>"


definition feature_viewpoint :: Feature where
  "feature_viewpoint = \<lparr> Geometry = Point, IconAttribute = Some (ustr ''icon-viewpoint'') \<rparr>"

definition tags_blank :: tags where
  "tags_blank = [(ustr ''image'', []), (ustr ''name'', ustr ''Old''), (ustr ''website'', [32, 9])]"

definition node_kinneret :: OsmGeo where
  "node_kinneret =
     \<lparr> GeoType = Node, OsmId = None, Latitude = Some 32, Longitude = Some 34.8,
       Tags = [(ustr ''name'', kinneret), (ustr ''name:he'', kinneret)] \<rparr>"

definition tags_mount :: tags where
  "tags_mount =
     [(ustr ''name'', ustr ''Old''), (ustr ''natural'', ustr ''spring''),
      (ustr ''name:en'', ustr ''High''), (ustr ''description:en'', ustr ''High''),
      (ustr ''tourism'', ustr ''viewpoint'')]"

definition element_mount :: OsmGeo where
  "element_mount = element_spring\<lparr>Tags := tags_mount\<rparr>"



text \<open>
  Collaborators that all succeed, three that fail at one call each, and one whose search
  index holds the icon \<open>icon-peak\<close>.
\<close>

definition env_ok :: collaborators where
  "env_ok =
     \<lparr> CreateChangeset = (\<lambda>_. Inr (ustr ''7'')),
       CreateElement = (\<lambda>_ _. Inr (ustr ''42'')),
       UpdateElement = (\<lambda>_ _. Inr ()),
       CloseChangeset = (\<lambda>_. Inr ()),
       GetNode = (\<lambda>_. Inr element_spring),
       GetCompleteWay = (\<lambda>_. Inr (element_spring\<lparr>GeoType := Way\<rparr>)),
       GetCompleteRelation = (\<lambda>_. Inr (element_spring\<lparr>GeoType := Relation\<rparr>)),
       GetPointOfInterestById = (\<lambda>_. Inr feature_tint),
       Preprocess = (\<lambda>_ _. Inr (Some feature_viewpoint)),
       UpdateNamesData = (\<lambda>_. Inr ()),
       long_Parse = (\<lambda>_. Inr 42) \<rparr>"

definition env_open_fails :: collaborators where
  "env_open_fails = env_ok\<lparr>CreateChangeset := (\<lambda>_. Inl (GatewayError 401))\<rparr>"

definition env_mutation_fails :: collaborators where
  "env_mutation_fails =
     env_ok\<lparr>CreateElement := (\<lambda>_ _. Inl (GatewayError 500)),
            UpdateElement := (\<lambda>_ _. Inl (GatewayError 500))\<rparr>"

definition env_close_fails :: collaborators where
  "env_close_fails = env_ok\<lparr>CloseChangeset := (\<lambda>_. Inl (GatewayError 503))\<rparr>"


section \<open>Language resolution: the pattern\<close>

lemma backtrack_iff: "backtrack words n = (\<exists>i\<le>n. class_at words i)"
  by (induction n) (auto simp: le_Suc_eq)

lemma takeWhile_length_ge:
  "list_all P (take i xs) \<Longrightarrow> i \<le> length xs \<Longrightarrow> i \<le> length (takeWhile P xs)"
proof (induction xs arbitrary: i)
  case Nil
  then show ?case by simp
next
  case (Cons x xs)
  then show ?case by (cases i) auto
qed

lemma take_within_takeWhile:
  "i \<le> length (takeWhile P xs) \<Longrightarrow> list_all P (take i xs)"
proof (induction xs arbitrary: i)
  case Nil
  then show ?case by simp
next
  case (Cons x xs)
  then show ?case by (cases i) (auto split: if_splits)
qed

lemma HasHebrewCharacters_pattern: "HasHebrewCharacters value = anchored_hebrew_pattern value"
proof
  assume "HasHebrewCharacters value"
  then obtain i where i: "i \<le> length (takeWhile (\<lambda>c. \<not> latin_letter c) value)" "class_at value i"
    by (auto simp: HasHebrewCharacters_def backtrack_iff)
  from i(1) have "list_all (\<lambda>c. \<not> latin_letter c) (take i value)"
    by (rule take_within_takeWhile)
  with i(2) show "anchored_hebrew_pattern value"
    by (auto simp: anchored_hebrew_pattern_def class_at_def list_ex_iff)
next
  assume "anchored_hebrew_pattern value"
  then obtain i where i: "i < length value" "hebrew_char (value ! i)"
      "list_all (\<lambda>c. \<not> latin_letter c) (take i value)"
    by (auto simp: anchored_hebrew_pattern_def list_ex_iff)
  from i(3) i(1) have "i \<le> length (takeWhile (\<lambda>c. \<not> latin_letter c) value)"
    by (intro takeWhile_length_ge) simp_all
  with i(1,2) show "HasHebrewCharacters value"
    by (auto simp: HasHebrewCharacters_def backtrack_iff class_at_def)
qed

text \<open>
  C6. For every value and every requested language: an empty or whitespace-only value
  resolves to the requested language, unchanged; any other value resolves to \<open>he\<close>
  exactly when it matches the anchored pattern (a character of U+0591 to U+05F4 with only
  non-Latin-letter characters before it) and to \<open>en\<close> otherwise, whatever language
  was requested.
\<close>

theorem GetLanguage_resolution:
  "GetLanguage value language =
     (if IsNullOrWhiteSpace value then language
      else if anchored_hebrew_pattern value then ustr ''he'' else ustr ''en'')"
  by (simp add: GetLanguage_def HasHebrewCharacters_pattern)

section \<open>Tag collections: lookups and key uniqueness\<close>

lemma ContainsKey_iff: "ContainsKey tags key = (key \<in> fst ` set tags)"
  by (simp add: ContainsKey_def map_of_eq_None_iff)

lemma map_of_set_Item:
  "map_of (set_Item tags key value) k = (if k = key then Some value else map_of tags k)"
proof -
  have "map_of (map (\<lambda>t. if fst t = key then (key, value) else t) xs) k =
        (if k = key then (if ContainsKey xs key then Some value else None) else map_of xs k)" for xs
    by (induction xs) (auto simp: ContainsKey_def)
  then show ?thesis
    by (auto simp: set_Item_def map_of_append ContainsKey_def map_add_def split: option.splits)
qed

lemma keys_set_Item:
  "map fst (set_Item tags key value) =
     (if ContainsKey tags key then map fst tags else map fst tags @ [key])"
proof -
  have "map fst (map (\<lambda>t. if fst t = key then (key, value) else t) xs) = map fst xs" for xs :: tags
    by (induction xs) auto
  then show ?thesis by (simp add: set_Item_def)
qed

lemma wf_tags_set_Item: "wf_tags tags \<Longrightarrow> wf_tags (set_Item tags key value)"
  by (auto simp: wf_tags_def keys_set_Item ContainsKey_iff)

lemma Add_absent: "\<not> ContainsKey tags key \<Longrightarrow> Add tags key value = Inr (set_Item tags key value)"
  by (simp add: Add_def set_Item_def)

lemma Add_or_replace:
  "(if ContainsKey tags key then Inr (set_Item tags key value) else Add tags key value) =
     Inr (set_Item tags key value)"
  by (simp add: Add_absent)

lemma SetTagByLanguage_writes:
  "SetTagByLanguage opts tags key value language =
     Inr (let resolved = GetLanguage value language in
          if resolved = DefaultLanguage opts
          then if ContainsKey tags key then set_Item tags key value
               else set_Item (set_Item tags key value) (key @ ustr '':'' @ resolved) value
          else set_Item tags (key @ ustr '':'' @ resolved) value)"
  by (simp add: SetTagByLanguage_def Let_def orRaise_def Add_or_replace Add_absent)

lemma wf_tags_SetTagByLanguage:
  "wf_tags tags \<Longrightarrow> SetTagByLanguage opts tags key value language = Inr tags' \<Longrightarrow> wf_tags tags'"
  by (auto simp: SetTagByLanguage_writes Let_def wf_tags_set_Item split: if_splits)

lemma filter_other_keys: "k \<notin> fst ` set xs \<Longrightarrow> filter (\<lambda>p. fst p \<noteq> k) xs = xs"
  by (induction xs) auto

lemma map_of_absent_prefix: "k \<notin> fst ` set xs \<Longrightarrow> map_of (xs @ ys) k = map_of ys k"
  by (induction xs) auto

lemma RemoveKeyValue_middle:
  assumes "wf_tags (xs @ x # ys)"
  shows "RemoveKeyValue (xs @ x # ys) x = xs @ ys"
proof -
  from assms have nx: "fst x \<notin> fst ` set xs" and ny: "fst x \<notin> fst ` set ys"
    by (auto simp: wf_tags_def)
  from nx have "map_of (xs @ x # ys) (fst x) = map_of (x # ys) (fst x)"
    by (rule map_of_absent_prefix)
  moreover have "map_of (x # ys) (fst x) = Some (snd x)"
    by (cases x) simp
  ultimately have m: "map_of (xs @ x # ys) (fst x) = Some (snd x)"
    by (simp only:)
  from nx have fx: "filter (\<lambda>p. fst p \<noteq> fst x) xs = xs"
    by (rule filter_other_keys)
  from ny have fy: "filter (\<lambda>p. fst p \<noteq> fst x) ys = ys"
    by (rule filter_other_keys)
  show ?thesis unfolding RemoveKeyValue_def m by (simp add: fx fy)
qed

lemma RemoveEmptyTags_loop_filter:
  "wf_tags (xs @ ys) \<Longrightarrow>
   RemoveEmptyTags_loop (xs @ ys) (length xs) =
     Inr (filter (\<lambda>t. \<not> IsNullOrWhiteSpace (snd t)) xs @ ys)"
proof (induction xs arbitrary: ys rule: rev_induct)
  case Nil
  then show ?case by simp
next
  case (snoc x xs)
  have at: "ElementAt (xs @ x # ys) (length xs) = Inr x"
    by (simp add: ElementAt_def)
  show ?case
  proof (cases "IsNullOrWhiteSpace (snd x)")
    case True
    from snoc.prems have wf: "wf_tags (xs @ x # ys)" by simp
    then have "wf_tags (xs @ ys)" by (auto simp: wf_tags_def)
    then have "RemoveEmptyTags_loop (xs @ ys) (length xs) =
        Inr (filter (\<lambda>t. \<not> IsNullOrWhiteSpace (snd t)) xs @ ys)"
      by (rule snoc.IH)
    with True at wf show ?thesis by (simp add: RemoveKeyValue_middle)
  next
    case False
    from snoc.prems have "wf_tags (xs @ (x # ys))" by simp
    then have "RemoveEmptyTags_loop (xs @ (x # ys)) (length xs) =
        Inr (filter (\<lambda>t. \<not> IsNullOrWhiteSpace (snd t)) xs @ (x # ys))"
      by (rule snoc.IH)
    with False at show ?thesis by simp
  qed
qed

lemma RemoveEmptyTags_filter:
  "wf_tags tags \<Longrightarrow>
   RemoveEmptyTags tags = Inr (filter (\<lambda>t. \<not> IsNullOrWhiteSpace (snd t)) tags)"
  using RemoveEmptyTags_loop_filter [of tags "[]"] by (simp add: RemoveEmptyTags_def)


lemma map_of_set_Item_fun: "map_of (set_Item tags key value) = (map_of tags)(key \<mapsto> value)"
  by (rule ext) (simp add: map_of_set_Item)

section \<open>Facts about the example data\<close>

lemma kinneret_not_blank: "IsNullOrWhiteSpace kinneret = False"
  by (simp add: IsNullOrWhiteSpace_def kinneret_def IsWhiteSpace_def)

lemma kinneret_hebrew: "HasHebrewCharacters kinneret"
  by (simp add: HasHebrewCharacters_def kinneret_def latin_letter_def class_at_def
      hebrew_char_def)

lemma GetLanguage_empty: "GetLanguage [] language = language"
  by (simp add: GetLanguage_def IsNullOrWhiteSpace_def)

lemma GetLanguage_kinneret: "GetLanguage kinneret language = ustr ''he''"
  by (simp add: GetLanguage_def kinneret_not_blank kinneret_hebrew)

section \<open>Localized tag writes\<close>

text \<open>
  C4, as the code has it. Every call succeeds. The base key is written (created or
  replaced) exactly when the resolved language is the configured default language. The
  language-qualified key is written (created or replaced) in every call but one: when the
  resolved language is the default and the base key was already present, only the base key
  is replaced. No other key changes.
\<close>

theorem SetTagByLanguage_effect:
  "\<exists>tags'. SetTagByLanguage opts tags key value language = Inr tags' \<and>
     map_of tags' =
       (if GetLanguage value language = DefaultLanguage opts
        then if ContainsKey tags key then (map_of tags)(key \<mapsto> value)
             else (map_of tags)(key \<mapsto> value, key @ ustr '':'' @ GetLanguage value language \<mapsto> value)
        else (map_of tags)(key @ ustr '':'' @ GetLanguage value language \<mapsto> value))"
  by (simp add: SetTagByLanguage_writes Let_def map_of_set_Item_fun)

text \<open>
  C4 as stated fails: with default language \<open>he\<close>, a Hebrew value and a tag set that
  already has the base key, the language-qualified key \<open>name:he\<close> is not written.
\<close>

theorem SetTagByLanguage_default_present_counterexample:
  "GetLanguage kinneret (ustr ''en'') = DefaultLanguage opts_he \<and>
   SetTagByLanguage opts_he [(ustr ''name'', ustr ''Kinneret'')] (ustr ''name'') kinneret
     (ustr ''en'') = Inr [(ustr ''name'', kinneret)]"
  by (simp add: GetLanguage_kinneret SetTagByLanguage_def Let_def opts_he_def ContainsKey_def
      set_Item_def)

section \<open>Key uniqueness and category tags through the tag pipeline\<close>

lemma UpdateTagsByIcon_cases:
  "UpdateTagsByIcon tags icon = Inr t \<Longrightarrow>
     t = tags \<or> (\<exists>k v. category_key k \<and> \<not> ContainsKey tags k \<and> t = tags @ [(k, v)])"
  unfolding UpdateTagsByIcon_def Add_def category_key_def
  by (auto split: if_splits)

lemma wf_tags_snoc: "wf_tags tags \<Longrightarrow> \<not> ContainsKey tags k \<Longrightarrow> wf_tags (tags @ [(k, v)])"
  by (simp add: wf_tags_def ContainsKey_iff)

lemma wf_tags_UpdateTagsByIcon:
  "wf_tags tags \<Longrightarrow> UpdateTagsByIcon tags icon = Inr t \<Longrightarrow> wf_tags t"
  by (auto dest!: UpdateTagsByIcon_cases simp: wf_tags_snoc)

lemma wf_tags_filter: "wf_tags tags \<Longrightarrow> wf_tags (filter P tags)"
  by (simp add: wf_tags_def distinct_map_filter)

lemma wf_tags_RemoveEmptyTags:
  "wf_tags tags \<Longrightarrow> RemoveEmptyTags tags = Inr t \<Longrightarrow> wf_tags t"
  by (auto simp: RemoveEmptyTags_filter wf_tags_filter)

lemma RemoveEmptyTags_no_blank:
  "wf_tags tags \<Longrightarrow> RemoveEmptyTags tags = Inr t \<Longrightarrow>
     list_all (\<lambda>tag. \<not> IsNullOrWhiteSpace (snd tag)) t"
  by (auto simp: RemoveEmptyTags_filter list_all_iff)

lemma map_of_snoc_absent:
  "\<not> ContainsKey tags k \<Longrightarrow> map_of tags k' = Some v' \<Longrightarrow> map_of (tags @ [(k, v)]) k' = Some v'"
  by (auto simp: ContainsKey_def map_add_Some_iff)

lemma wf_tags_orRaise_writes:
  "wf_tags tags \<Longrightarrow> UpdatePointOfInterest_writes opts poi tags language = Inr t \<Longrightarrow> wf_tags t"
  unfolding UpdatePointOfInterest_writes_def orRaise_def
  by (auto split: sum.splits intro!: wf_tags_set_Item dest: wf_tags_SetTagByLanguage)

lemma wf_tags_UpdatePointOfInterest_tags:
  "wf_tags tags \<Longrightarrow> UpdatePointOfInterest_tags opts poi feature tags language = Inr t \<Longrightarrow>
     wf_tags t"
  unfolding UpdatePointOfInterest_tags_def orRaise_def
  by (auto split: sum.splits option.splits if_splits)
    (blast dest: wf_tags_orRaise_writes wf_tags_UpdateTagsByIcon wf_tags_RemoveEmptyTags)+

lemma wf_tags_Add: "wf_tags tags \<Longrightarrow> Add tags k v = Inr t \<Longrightarrow> wf_tags t"
  by (auto simp: Add_def wf_tags_snoc split: if_splits)

lemma wf_tags_Nil: "wf_tags []"
  by (simp add: wf_tags_def)

lemma AddPointOfInterest_tags_unblanked:
  assumes "AddPointOfInterest_tags opts poi language = Inr t"
  shows "\<exists>t4. wf_tags t4 \<and> RemoveEmptyTags t4 = Inr t"
proof -
  from assms obtain t0 t1 t2 t3 t4 where
    s: "Add [] IMAGE_URL (ImageUrl poi) = Inr t0" "Add t0 WEBSITE (Url poi) = Inr t1"
       "SetTagByLanguage opts t1 NAME (Title poi) language = Inr t2"
       "SetTagByLanguage opts t2 DESCRIPTION (Description poi) language = Inr t3"
       "UpdateTagsByIcon t3 (Icon poi) = Inr t4" "RemoveEmptyTags t4 = Inr t"
    unfolding AddPointOfInterest_tags_def orRaise_def
    by (auto split: sum.splits)
  from s(1) have "wf_tags t0" using wf_tags_Nil by (rule wf_tags_Add [rotated])
  with s(2) have "wf_tags t1" by (rule wf_tags_Add [rotated])
  with s(3) have "wf_tags t2" by (rule wf_tags_SetTagByLanguage [rotated])
  with s(4) have "wf_tags t3" by (rule wf_tags_SetTagByLanguage [rotated])
  with s(5) have "wf_tags t4" by (rule wf_tags_UpdateTagsByIcon [rotated])
  with s(6) show ?thesis by blast
qed

lemma wf_tags_AddPointOfInterest_tags:
  "AddPointOfInterest_tags opts poi language = Inr t \<Longrightarrow> wf_tags t"
  by (auto dest!: AddPointOfInterest_tags_unblanked dest: wf_tags_RemoveEmptyTags)


lemma set_Item_other:
  "k \<noteq> key \<Longrightarrow> ((k, v) \<in> set (set_Item tags key value)) = ((k, v) \<in> set tags)"
  by (induction tags) (auto simp: set_Item_def split: if_splits)

lemma SetTagByLanguage_other:
  "SetTagByLanguage opts tags key value language = Inr t \<Longrightarrow> k \<noteq> key \<Longrightarrow>
   k \<noteq> key @ ustr '':'' @ GetLanguage value language \<Longrightarrow>
   ((k, v) \<in> set t) = ((k, v) \<in> set tags)"
  by (auto simp: SetTagByLanguage_writes Let_def set_Item_other split: if_splits)

lemma category_key_not_written:
  assumes "category_key k"
  shows "k \<noteq> NAME" "k \<noteq> DESCRIPTION" "k \<noteq> IMAGE_URL" "k \<noteq> WEBSITE"
    "k \<noteq> NAME @ ustr '':'' @ l" "k \<noteq> DESCRIPTION @ ustr '':'' @ l"
  using assms
  by (auto simp: category_key_def NAME_def DESCRIPTION_def IMAGE_URL_def WEBSITE_def ustr_def)

lemma writes_keep_category:
  assumes "category_key k" "UpdatePointOfInterest_writes opts poi tags language = Inr t4"
  shows "((k, v) \<in> set t4) = ((k, v) \<in> set tags)"
proof -
  from assms(2) obtain t1 t2 where
    s: "SetTagByLanguage opts tags NAME (Description poi) language = Inr t1"
       "SetTagByLanguage opts t1 DESCRIPTION (Description poi) language = Inr t2"
       "t4 = set_Item (set_Item t2 IMAGE_URL (ImageUrl poi)) WEBSITE (Url poi)"
    unfolding UpdatePointOfInterest_writes_def orRaise_def
    by (auto split: sum.splits)
  note nk = category_key_not_written [OF assms(1)]
  have "((k, v) \<in> set t1) = ((k, v) \<in> set tags)"
    using s(1) nk(1) nk(5) by (rule SetTagByLanguage_other)
  moreover have "((k, v) \<in> set t2) = ((k, v) \<in> set t1)"
    using s(2) nk(2) nk(6) by (rule SetTagByLanguage_other)
  moreover have "((k, v) \<in> set t4) = ((k, v) \<in> set t2)"
    using nk(3) nk(4) by (simp add: s(3) set_Item_other)
  ultimately show ?thesis by simp
qed




section \<open>Evaluating the examples\<close>

lemma ustr_eq_iff: "(ustr a = ustr b) = (a = b)"
  by (simp add: ustr_def inj_map_eq_map inj_def)

lemma ustr_append: "ustr a @ ustr b = ustr (a @ b)"
  by (simp add: ustr_def)

lemma ustr_empty_iff: "([] = ustr a) = (a = [])" "(ustr a = []) = (a = [])"
  by (auto simp: ustr_def)

lemma High_not_blank: "IsNullOrWhiteSpace (ustr ''High'') = False"
  by (simp add: IsNullOrWhiteSpace_def ustr_def IsWhiteSpace_def)

lemma High_not_hebrew: "HasHebrewCharacters (ustr ''High'') = False"
  by (simp add: HasHebrewCharacters_def ustr_def latin_letter_def class_at_def hebrew_char_def)

lemma GetLanguage_High: "GetLanguage (ustr ''High'') language = ustr ''en''"
  by (simp add: GetLanguage_def High_not_blank High_not_hebrew)

lemma blank_values:
  "IsNullOrWhiteSpace [] = True"
  "IsNullOrWhiteSpace (ustr ''Old'') = False"
  "IsNullOrWhiteSpace (ustr ''spring'') = False"
  "IsNullOrWhiteSpace (ustr ''viewpoint'') = False"
  "IsNullOrWhiteSpace (ustr ''peak'') = False"
  by (simp_all add: IsNullOrWhiteSpace_def ustr_def IsWhiteSpace_def)

lemmas eval_tags =
  orRaise_def SetTagByLanguage_def Let_def Add_def ContainsKey_def set_Item_def
  UpdateTagsByIcon_def RemoveEmptyTags_def ElementAt_def RemoveKeyValue_def
  NAME_def DESCRIPTION_def IMAGE_URL_def WEBSITE_def ustr_eq_iff ustr_append ustr_empty_iff
  blank_values High_not_blank GetLanguage_High numeral_2_eq_2 numeral_3_eq_3

lemma writes_mount:
  "UpdatePointOfInterest_writes opts_he poi_mount tags_spring language =
     Inr [(ustr ''name'', ustr ''Old''), (ustr ''natural'', ustr ''spring''),
          (ustr ''name:en'', ustr ''High''), (ustr ''description:en'', ustr ''High''),
          (ustr ''image'', []), (ustr ''website'', [])]"
  by (simp add: UpdatePointOfInterest_writes_def poi_mount_def opts_he_def tags_spring_def eval_tags)

lemma Icon_examples:
  "Icon poi_mount = ustr ''icon-viewpoint''" "Icon poi_peak = ustr ''icon-peak''"
  by (simp_all add: poi_mount_def poi_peak_def)

lemma update_tags_mount:
  "UpdatePointOfInterest_tags opts_he poi_mount feature_tint tags_spring language =
     Inr [(ustr ''name'', ustr ''Old''), (ustr ''natural'', ustr ''spring''),
          (ustr ''name:en'', ustr ''High''), (ustr ''description:en'', ustr ''High''),
          (ustr ''tourism'', ustr ''viewpoint'')]"
  by (simp add: UpdatePointOfInterest_tags_def writes_mount feature_tint_def Icon_examples
      eval_tags)

lemma writes_peak:
  "UpdatePointOfInterest_writes opts_he poi_peak tags_spring language =
     UpdatePointOfInterest_writes opts_he poi_mount tags_spring language"
  by (simp add: UpdatePointOfInterest_writes_def poi_peak_def)


lemma update_tags_peak_changed:
  "UpdatePointOfInterest_tags opts_he poi_peak feature_tint tags_spring language =
     Inl ArgumentException"
  by (simp add: UpdatePointOfInterest_tags_def writes_peak writes_mount feature_tint_def
      Icon_examples eval_tags)

section \<open>The icon vocabulary only appends\<close>

text \<open>
  C10. \<open>UpdateTagsByIcon\<close> only appends: the tags it returns start with the tags it was
  given, so every tag present before is present afterwards with the same value (when
  \<open>Add\<close> raises, it has changed nothing). In an
  update, a category tag of the fetched element that has a non-blank value is still a tag
  of the result, next to whatever the icon step appended.
\<close>

theorem UpdateTagsByIcon_only_appends:
  "(UpdateTagsByIcon tags icon = Inr tags' \<longrightarrow>
      take (length tags) tags' = tags \<and>
      (\<forall>k v. map_of tags k = Some v \<longrightarrow> map_of tags' k = Some v)) \<and>
   (wf_tags tags \<and> UpdatePointOfInterest_tags opts poi feature tags language = Inr t \<and>
    category_key k \<and> (k, v) \<in> set tags \<and> \<not> IsNullOrWhiteSpace v \<longrightarrow> (k, v) \<in> set t)"
proof (intro conjI impI)
  assume "UpdateTagsByIcon tags icon = Inr tags'"
  then show "take (length tags) tags' = tags"
    by (auto dest!: UpdateTagsByIcon_cases)
next
  assume "UpdateTagsByIcon tags icon = Inr tags'"
  then show "\<forall>k v. map_of tags k = Some v \<longrightarrow> map_of tags' k = Some v"
    by (auto dest!: UpdateTagsByIcon_cases simp: map_of_snoc_absent)
next
  assume a: "wf_tags tags \<and> UpdatePointOfInterest_tags opts poi feature tags language = Inr t \<and>
    category_key k \<and> (k, v) \<in> set tags \<and> \<not> IsNullOrWhiteSpace v"
  then obtain t4 t5 where w: "UpdatePointOfInterest_writes opts poi tags language = Inr t4"
      and i: "t5 = t4 \<or> UpdateTagsByIcon t4 (Icon poi) = Inr t5"
      and r: "RemoveEmptyTags t5 = Inr t"
    unfolding UpdatePointOfInterest_tags_def orRaise_def
    by (auto split: sum.splits option.splits if_splits)
  from a w have wf4: "wf_tags t4" by (blast dest: wf_tags_orRaise_writes)
  from a w have in4: "(k, v) \<in> set t4" by (simp add: writes_keep_category)
  from i wf4 have wf5: "wf_tags t5" by (auto dest: wf_tags_UpdateTagsByIcon)
  from i in4 have in5: "(k, v) \<in> set t5" by (auto dest!: UpdateTagsByIcon_cases)
  from r wf5 have "t = filter (\<lambda>tag. \<not> IsNullOrWhiteSpace (snd tag)) t5"
    by (simp add: RemoveEmptyTags_filter)
  with in5 a show "(k, v) \<in> set t" by simp
qed

theorem UpdateTagsByIcon_only_appends_witness:
  "UpdateTagsByIcon tags_spring (ustr ''icon-viewpoint'') =
     Inr (tags_spring @ [(ustr ''tourism'', ustr ''viewpoint'')]) \<and>
   take (length tags_spring) (tags_spring @ [(ustr ''tourism'', ustr ''viewpoint'')]) =
     tags_spring \<and>
   map_of (tags_spring @ [(ustr ''tourism'', ustr ''viewpoint'')]) (ustr ''natural'') =
     Some (ustr ''spring'') \<and>
   wf_tags tags_spring \<and>
   UpdatePointOfInterest_tags opts_he poi_mount feature_tint tags_spring (ustr ''en'') =
     Inr [(ustr ''name'', ustr ''Old''), (ustr ''natural'', ustr ''spring''),
          (ustr ''name:en'', ustr ''High''), (ustr ''description:en'', ustr ''High''),
          (ustr ''tourism'', ustr ''viewpoint'')] \<and>
   (ustr ''natural'', ustr ''spring'') \<in>
     set [(ustr ''name'', ustr ''Old''), (ustr ''natural'', ustr ''spring''),
          (ustr ''name:en'', ustr ''High''), (ustr ''description:en'', ustr ''High''),
          (ustr ''tourism'', ustr ''viewpoint'')]"
proof -
  have a: "UpdateTagsByIcon tags_spring (ustr ''icon-viewpoint'') =
      Inr (tags_spring @ [(ustr ''tourism'', ustr ''viewpoint'')])"
    by (simp add: UpdateTagsByIcon_def Add_def ContainsKey_def tags_spring_def ustr_eq_iff)
  have m: "map_of tags_spring (ustr ''natural'') = Some (ustr ''spring'')"
    by (simp add: tags_spring_def ustr_eq_iff)
  have w: "wf_tags tags_spring"
    by (simp add: wf_tags_def tags_spring_def ustr_eq_iff)
  have b: "(ustr ''natural'', ustr ''spring'') \<in> set tags_spring"
    by (simp add: tags_spring_def)
  have c: "\<not> IsNullOrWhiteSpace (ustr ''spring'')"
    by (simp add: blank_values)
  show ?thesis
    using UpdateTagsByIcon_only_appends [of tags_spring "ustr ''icon-viewpoint''"
        "tags_spring @ [(ustr ''tourism'', ustr ''viewpoint'')]" opts_he poi_mount feature_tint
        "ustr ''en''"
        "[(ustr ''name'', ustr ''Old''), (ustr ''natural'', ustr ''spring''),
          (ustr ''name:en'', ustr ''High''), (ustr ''description:en'', ustr ''High''),
          (ustr ''tourism'', ustr ''viewpoint'')]"
        "ustr ''natural''" "ustr ''spring''"] a m w b c
    by (simp add: update_tags_mount category_key_def)
qed

section \<open>The calls of create and update, case by case\<close>

lemma AddPointOfInterest_run:
  "AddPointOfInterest env opts poi language =
     (case CreateChangeset env addComment of
        Inl e \<Rightarrow> ([Call_CreateChangeset addComment], Inl e)
      | Inr cid \<Rightarrow>
     (case AddPointOfInterest_tags opts poi language of
        Inl e \<Rightarrow> ([Call_CreateChangeset addComment], Inl e)
      | Inr t \<Rightarrow>
     (let node = \<lparr> GeoType = Node, OsmId = None, Latitude = Some (fst (Location poi)),
                   Longitude = Some (snd (Location poi)), Tags = t \<rparr> in
      case CreateElement env cid node of
        Inl e \<Rightarrow> ([Call_CreateChangeset addComment, Call_CreateElement cid node], Inl e)
      | Inr eid \<Rightarrow>
     (case long_Parse env eid of
        Inl e \<Rightarrow> ([Call_CreateChangeset addComment, Call_CreateElement cid node], Inl e)
      | Inr n \<Rightarrow>
     (case CloseChangeset env cid of
        Inl e \<Rightarrow> ([Call_CreateChangeset addComment, Call_CreateElement cid node,
                    Call_CloseChangeset cid], Inl e)
      | Inr _ \<Rightarrow>
     (case Preprocess env (Title poi) (node\<lparr>OsmId := Some n\<rparr>) of
        Inl e \<Rightarrow> ([Call_CreateChangeset addComment, Call_CreateElement cid node,
                    Call_CloseChangeset cid], Inl e)
      | Inr None \<Rightarrow> ([Call_CreateChangeset addComment, Call_CreateElement cid node,
                    Call_CloseChangeset cid], Inr ())
      | Inr (Some f) \<Rightarrow> ([Call_CreateChangeset addComment, Call_CreateElement cid node,
                    Call_CloseChangeset cid, Call_UpdateNamesData f],
                    UpdateNamesData env f)))))))"
  unfolding AddPointOfInterest_def UpdateElasticSearch_def invoke_def local_step_def Let_def
  by (simp add: andThen_def split: sum.splits option.splits prod.splits)

lemma fetchElement_calls: "fst (fetchElement env feature elementId) = [fetch_call feature elementId]"
  by (simp add: fetchElement_def fetch_call_def invoke_def)

lemma UpdatePointOfInterest_run:
  "UpdatePointOfInterest env opts poi language =
     (case GetPointOfInterestById env (Id poi) of
        Inl e \<Rightarrow> ([Call_GetPointOfInterestById (Id poi)], Inl e)
      | Inr feature \<Rightarrow>
     (let pre = [Call_GetPointOfInterestById (Id poi), fetch_call feature (Id poi)] in
      case snd (fetchElement env feature (Id poi)) of
        Inl e \<Rightarrow> (pre, Inl e)
      | Inr fetched \<Rightarrow>
     (case UpdatePointOfInterest_tags opts poi feature (Tags fetched) language of
        Inl e \<Rightarrow> (pre, Inl e)
      | Inr newTags \<Rightarrow>
     (let el = fetched\<lparr>Tags := newTags\<rparr> in
      case CreateChangeset env updateComment of
        Inl e \<Rightarrow> (pre @ [Call_CreateChangeset updateComment], Inl e)
      | Inr cid \<Rightarrow>
     (case UpdateElement env cid el of
        Inl e \<Rightarrow> (pre @ [Call_CreateChangeset updateComment, Call_UpdateElement cid el], Inl e)
      | Inr _ \<Rightarrow>
     (case CloseChangeset env cid of
        Inl e \<Rightarrow> (pre @ [Call_CreateChangeset updateComment, Call_UpdateElement cid el,
                    Call_CloseChangeset cid], Inl e)
      | Inr _ \<Rightarrow>
     (case Preprocess env (Title poi) el of
        Inl e \<Rightarrow> (pre @ [Call_CreateChangeset updateComment, Call_UpdateElement cid el,
                    Call_CloseChangeset cid], Inl e)
      | Inr None \<Rightarrow> (pre @ [Call_CreateChangeset updateComment, Call_UpdateElement cid el,
                    Call_CloseChangeset cid], Inr ())
      | Inr (Some f) \<Rightarrow> (pre @ [Call_CreateChangeset updateComment, Call_UpdateElement cid el,
                    Call_CloseChangeset cid, Call_UpdateNamesData f],
                    UpdateNamesData env f))))))))"
proof -
  have f: "fetchElement env feature (Id poi) =
      ([fetch_call feature (Id poi)], snd (fetchElement env feature (Id poi)))" for feature
    by (metis fetchElement_calls prod.collapse)
  show ?thesis
    unfolding UpdatePointOfInterest_def UpdateElasticSearch_def invoke_def local_step_def Let_def
    apply (subst f)
    apply (simp add: andThen_def split: sum.splits option.splits prod.splits)
    done
qed

lemma fetch_call_other:
  "fetch_call feature i \<noteq> Call_UpdateNamesData f"
  "fetch_call feature i \<noteq> Call_CloseChangeset c"
  "fetch_call feature i \<noteq> Call_UpdateElement c el"
  "fetch_call feature i \<noteq> Call_CreateChangeset c"
  "Call_UpdateNamesData f \<noteq> fetch_call feature i"
  "Call_CloseChangeset c \<noteq> fetch_call feature i"
  "Call_UpdateElement c el \<noteq> fetch_call feature i"
  "Call_CreateChangeset c \<noteq> fetch_call feature i"
  by (simp_all add: fetch_call_def)

lemma fetched_tags_wf:
  assumes "fetched_wf env elementId" "snd (fetchElement env feature elementId) = Inr fetched"
  shows "wf_tags (Tags fetched)"
  using assms
  by (auto simp: fetched_wf_def tags_ok_def fetchElement_def invoke_def split: if_splits)

lemma create_tags_kinneret:
  "AddPointOfInterest_tags opts_he poi_kinneret (ustr ''he'') =
     Inr [(ustr ''name'', kinneret), (ustr ''name:he'', kinneret)]"
  by (simp add: AddPointOfInterest_tags_def poi_kinneret_def opts_he_def GetLanguage_kinneret
      GetLanguage_empty kinneret_not_blank eval_tags)

lemma create_node_kinneret:
  "\<lparr> GeoType = Node, OsmId = None, Latitude = Some (fst (Location poi_kinneret)),
      Longitude = Some (snd (Location poi_kinneret)),
      Tags = [(ustr ''name'', kinneret), (ustr ''name:he'', kinneret)] \<rparr> = node_kinneret"
  by (simp add: node_kinneret_def poi_kinneret_def)

lemma run_create_ok:
  "AddPointOfInterest env_ok opts_he poi_kinneret (ustr ''he'') =
     ([Call_CreateChangeset addComment, Call_CreateElement (ustr ''7'') node_kinneret,
       Call_CloseChangeset (ustr ''7''), Call_UpdateNamesData feature_viewpoint], Inr ())"
  by (simp add: AddPointOfInterest_run create_tags_kinneret create_node_kinneret env_ok_def)

lemma run_create_open_fails:
  "AddPointOfInterest env_open_fails opts_he poi_kinneret (ustr ''he'') =
     ([Call_CreateChangeset addComment], Inl (GatewayError 401))"
  by (simp add: AddPointOfInterest_run env_open_fails_def env_ok_def)


lemma run_create_close_fails:
  "AddPointOfInterest env_close_fails opts_he poi_kinneret (ustr ''he'') =
     ([Call_CreateChangeset addComment, Call_CreateElement (ustr ''7'') node_kinneret,
       Call_CloseChangeset (ustr ''7'')], Inl (GatewayError 503))"
  by (simp add: AddPointOfInterest_run create_tags_kinneret create_node_kinneret
      env_close_fails_def env_ok_def)

lemma fetch_node_17:
  "fetch_call feature_tint elementId = Call_GetNode elementId"
  "snd (fetchElement env_ok feature_tint elementId) = Inr element_spring"
  "snd (fetchElement env_open_fails feature_tint elementId) = Inr element_spring"
  "snd (fetchElement env_mutation_fails feature_tint elementId) = Inr element_spring"
  "snd (fetchElement env_close_fails feature_tint elementId) = Inr element_spring"
  by (simp_all add: fetch_call_def fetchElement_def invoke_def feature_tint_def
      env_ok_def env_open_fails_def env_mutation_fails_def env_close_fails_def)

lemma update_tags_spring:
  "UpdatePointOfInterest_tags opts_he poi_mount feature_tint (Tags element_spring) (ustr ''en'') =
     Inr tags_mount"
  by (simp add: element_spring_def update_tags_mount tags_mount_def)

lemma update_element_mount: "element_spring\<lparr>Tags := tags_mount\<rparr> = element_mount"
  by (simp add: element_mount_def)

lemma run_update_ok:
  "UpdatePointOfInterest env_ok opts_he poi_mount (ustr ''en'') =
     ([Call_GetPointOfInterestById (ustr ''17''), Call_GetNode (ustr ''17''),
       Call_CreateChangeset updateComment, Call_UpdateElement (ustr ''7'') element_mount,
       Call_CloseChangeset (ustr ''7''), Call_UpdateNamesData feature_viewpoint], Inr ())"
proof -
  have "GetPointOfInterestById env_ok (Id poi_mount) = Inr feature_tint"
    "Id poi_mount = ustr ''17''" "CreateChangeset env_ok updateComment = Inr (ustr ''7'')"
    "UpdateElement env_ok (ustr ''7'') element_mount = Inr ()"
    "CloseChangeset env_ok (ustr ''7'') = Inr ()"
    "Preprocess env_ok (Title poi_mount) element_mount = Inr (Some feature_viewpoint)"
    "UpdateNamesData env_ok feature_viewpoint = Inr ()"
    by (simp_all add: env_ok_def poi_mount_def)
  then show ?thesis
    by (simp add: UpdatePointOfInterest_run Let_def fetch_node_17 update_tags_spring
        update_element_mount)
qed



section \<open>Changeset and search index\<close>




text \<open>
  C2. In create and in update, a call of the search index's upsert is the last call, it
  comes right after the close of the changeset, and the open, the element mutation and the
  close before it all succeeded. So a failed open, a failed mutation or a failed close
  leaves the upsert uncalled.
\<close>

theorem upsert_only_after_close:
  "(Call_UpdateNamesData f \<in> set (fst (AddPointOfInterest env opts poi language)) \<longrightarrow>
      (\<exists>cid node eid.
         CreateChangeset env addComment = Inr cid \<and>
         CreateElement env cid node = Inr eid \<and>
         CloseChangeset env cid = Inr () \<and>
         fst (AddPointOfInterest env opts poi language) =
           [Call_CreateChangeset addComment, Call_CreateElement cid node,
            Call_CloseChangeset cid, Call_UpdateNamesData f])) \<and>
   (Call_UpdateNamesData f \<in> set (fst (UpdatePointOfInterest env opts poi language)) \<longrightarrow>
      (\<exists>cid el pre.
         CreateChangeset env updateComment = Inr cid \<and>
         UpdateElement env cid el = Inr () \<and>
         CloseChangeset env cid = Inr () \<and>
         fst (UpdatePointOfInterest env opts poi language) =
           pre @ [Call_CreateChangeset updateComment, Call_UpdateElement cid el,
                  Call_CloseChangeset cid, Call_UpdateNamesData f]))"
proof (intro conjI impI)
  assume "Call_UpdateNamesData f \<in> set (fst (AddPointOfInterest env opts poi language))"
  then show "\<exists>cid node eid.
         CreateChangeset env addComment = Inr cid \<and>
         CreateElement env cid node = Inr eid \<and>
         CloseChangeset env cid = Inr () \<and>
         fst (AddPointOfInterest env opts poi language) =
           [Call_CreateChangeset addComment, Call_CreateElement cid node,
            Call_CloseChangeset cid, Call_UpdateNamesData f]"
    unfolding AddPointOfInterest_run Let_def
    by (auto split: sum.splits option.splits)
next
  assume "Call_UpdateNamesData f \<in> set (fst (UpdatePointOfInterest env opts poi language))"
  then show "\<exists>cid el pre.
         CreateChangeset env updateComment = Inr cid \<and>
         UpdateElement env cid el = Inr () \<and>
         CloseChangeset env cid = Inr () \<and>
         fst (UpdatePointOfInterest env opts poi language) =
           pre @ [Call_CreateChangeset updateComment, Call_UpdateElement cid el,
                  Call_CloseChangeset cid, Call_UpdateNamesData f]"
    unfolding UpdatePointOfInterest_run Let_def
    by (auto simp: fetch_call_other split: sum.splits option.splits)
qed

theorem upsert_only_after_close_witness:
  "Call_UpdateNamesData feature_viewpoint \<in>
     set (fst (AddPointOfInterest env_ok opts_he poi_kinneret (ustr ''he''))) \<and>
   Call_UpdateNamesData feature_viewpoint \<in>
     set (fst (UpdatePointOfInterest env_ok opts_he poi_mount (ustr ''en''))) \<and>
   CreateChangeset env_ok addComment = Inr (ustr ''7'') \<and>
   CloseChangeset env_ok (ustr ''7'') = Inr () \<and>
   Call_UpdateNamesData feature_viewpoint \<notin>
     set (fst (AddPointOfInterest env_open_fails opts_he poi_kinneret (ustr ''he''))) \<and>
   Call_UpdateNamesData feature_viewpoint \<notin>
     set (fst (AddPointOfInterest env_mutation_fails opts_he poi_kinneret (ustr ''he''))) \<and>
   Call_UpdateNamesData feature_viewpoint \<notin>
     set (fst (AddPointOfInterest env_close_fails opts_he poi_kinneret (ustr ''he''))) \<and>
   Call_UpdateNamesData feature_viewpoint \<notin>
     set (fst (UpdatePointOfInterest env_close_fails opts_he poi_mount (ustr ''en'')))"
proof -
  have a: "Call_UpdateNamesData feature_viewpoint \<in>
      set (fst (AddPointOfInterest env_ok opts_he poi_kinneret (ustr ''he'')))"
    by (simp add: run_create_ok)
  have b: "Call_UpdateNamesData feature_viewpoint \<in>
      set (fst (UpdatePointOfInterest env_ok opts_he poi_mount (ustr ''en'')))"
    by (simp add: run_update_ok)
  have c: "CreateChangeset env_ok addComment = Inr (ustr ''7'')"
    "CloseChangeset env_ok (ustr ''7'') = Inr ()"
    by (simp_all add: env_ok_def)
  have o: "CreateChangeset env_open_fails addComment \<noteq> Inr cid" for cid
    by (simp add: env_open_fails_def)
  have m: "CreateElement env_mutation_fails cid node \<noteq> Inr eid" for cid node eid
    by (simp add: env_mutation_fails_def)
  have f: "CloseChangeset env_close_fails cid \<noteq> Inr ()" for cid
    by (simp add: env_close_fails_def)
  show ?thesis
    using upsert_only_after_close [of feature_viewpoint env_open_fails opts_he poi_kinneret
        "ustr ''he''"]
      upsert_only_after_close [of feature_viewpoint env_mutation_fails opts_he poi_kinneret
        "ustr ''he''"]
      upsert_only_after_close [of feature_viewpoint env_close_fails opts_he poi_kinneret
        "ustr ''he''"]
      upsert_only_after_close [of feature_viewpoint env_close_fails opts_he poi_mount
        "ustr ''en''"]
      a b c o m f
    by auto
qed

section \<open>Empty tags\<close>

text \<open>
  C8. After \<open>RemoveEmptyTags\<close> has run on a tag collection, no tag has an empty or
  whitespace-only value. In create and in update the removal is the last step on the tags:
  the element handed to the gateway's create or update call carries no tag with an empty
  or whitespace-only value.
\<close>

theorem no_blank_tag_is_persisted:
  "(wf_tags tags \<longrightarrow>
      (\<exists>t. RemoveEmptyTags tags = Inr t \<and>
           list_all (\<lambda>tag. \<not> IsNullOrWhiteSpace (snd tag)) t)) \<and>
   (Call_CreateElement cid node \<in> set (fst (AddPointOfInterest env opts poi language)) \<longrightarrow>
      list_all (\<lambda>tag. \<not> IsNullOrWhiteSpace (snd tag)) (Tags node)) \<and>
   (fetched_wf env (Id poi) \<and>
    Call_UpdateElement cid el \<in> set (fst (UpdatePointOfInterest env opts poi language)) \<longrightarrow>
      list_all (\<lambda>tag. \<not> IsNullOrWhiteSpace (snd tag)) (Tags el))"
proof (intro conjI impI)
  assume "wf_tags tags"
  then show "\<exists>t. RemoveEmptyTags tags = Inr t \<and>
           list_all (\<lambda>tag. \<not> IsNullOrWhiteSpace (snd tag)) t"
    by (simp add: RemoveEmptyTags_filter list_all_iff)
next
  assume "Call_CreateElement cid node \<in> set (fst (AddPointOfInterest env opts poi language))"
  then obtain t where "AddPointOfInterest_tags opts poi language = Inr t" "Tags node = t"
    unfolding AddPointOfInterest_run Let_def
    by (auto split: sum.splits option.splits)
  then show "list_all (\<lambda>tag. \<not> IsNullOrWhiteSpace (snd tag)) (Tags node)"
    by (auto dest!: AddPointOfInterest_tags_unblanked dest: RemoveEmptyTags_no_blank)
next
  assume a: "fetched_wf env (Id poi) \<and>
    Call_UpdateElement cid el \<in> set (fst (UpdatePointOfInterest env opts poi language))"
  then obtain feature fetched t where
    f: "snd (fetchElement env feature (Id poi)) = Inr fetched"
    and t: "UpdatePointOfInterest_tags opts poi feature (Tags fetched) language = Inr t"
    and e: "Tags el = t"
    unfolding UpdatePointOfInterest_run Let_def
    by (auto simp: fetch_call_other split: sum.splits option.splits)
  from a f have "wf_tags (Tags fetched)" by (blast intro: fetched_tags_wf)
  with t obtain t5 where "wf_tags t5" "RemoveEmptyTags t5 = Inr t"
    unfolding UpdatePointOfInterest_tags_def orRaise_def
    by (auto split: sum.splits option.splits if_splits
        dest: wf_tags_orRaise_writes wf_tags_UpdateTagsByIcon)
  with e show "list_all (\<lambda>tag. \<not> IsNullOrWhiteSpace (snd tag)) (Tags el)"
    by (auto dest: RemoveEmptyTags_no_blank)
qed

theorem no_blank_tag_is_persisted_witness:
  "wf_tags tags_blank \<and>
   RemoveEmptyTags tags_blank = Inr [(ustr ''name'', ustr ''Old'')] \<and>
   Call_CreateElement (ustr ''7'') node_kinneret \<in>
     set (fst (AddPointOfInterest env_ok opts_he poi_kinneret (ustr ''he''))) \<and>
   list_all (\<lambda>tag. \<not> IsNullOrWhiteSpace (snd tag)) (Tags node_kinneret) \<and>
   fetched_wf env_ok (Id poi_mount) \<and>
   Call_UpdateElement (ustr ''7'') element_mount \<in>
     set (fst (UpdatePointOfInterest env_ok opts_he poi_mount (ustr ''en''))) \<and>
   list_all (\<lambda>tag. \<not> IsNullOrWhiteSpace (snd tag)) (Tags element_mount)"
proof -
  have w: "wf_tags tags_blank"
    by (simp add: wf_tags_def tags_blank_def ustr_eq_iff)
  have "IsNullOrWhiteSpace [32, 9]"
    by (simp add: IsNullOrWhiteSpace_def IsWhiteSpace_def)
  with w have r: "RemoveEmptyTags tags_blank = Inr [(ustr ''name'', ustr ''Old'')]"
    by (simp add: RemoveEmptyTags_filter tags_blank_def blank_values)
  have c: "Call_CreateElement (ustr ''7'') node_kinneret \<in>
      set (fst (AddPointOfInterest env_ok opts_he poi_kinneret (ustr ''he'')))"
    by (simp add: run_create_ok)
  have f: "fetched_wf env_ok (Id poi_mount)"
    by (simp add: fetched_wf_def tags_ok_def env_ok_def element_spring_def tags_spring_def
        wf_tags_def ustr_eq_iff)
  have u: "Call_UpdateElement (ustr ''7'') element_mount \<in>
      set (fst (UpdatePointOfInterest env_ok opts_he poi_mount (ustr ''en'')))"
    by (simp add: run_update_ok)
  show ?thesis
    using no_blank_tag_is_persisted [where tags = tags_blank and cid = "ustr ''7''"
        and node = node_kinneret and env = env_ok and opts = opts_he and poi = poi_kinneret
        and language = "ustr ''he''"]
      no_blank_tag_is_persisted [where tags = tags_blank and cid = "ustr ''7''"
        and el = element_mount and env = env_ok and opts = opts_he and poi = poi_mount
        and language = "ustr ''en''"]
      w r c f u
    by simp
qed

section \<open>The tags of a created node\<close>

lemma UpdateTagsByIcon_total:
  assumes "\<And>k. category_key k \<Longrightarrow> \<not> ContainsKey tags k"
  shows "\<exists>t. UpdateTagsByIcon tags icon = Inr t"
proof -
  have "\<not> ContainsKey tags (ustr ''tourism'')" "\<not> ContainsKey tags (ustr ''natural'')"
    "\<not> ContainsKey tags (ustr ''historic'')"
    using assms by (simp_all add: category_key_def)
  then show ?thesis
    by (simp add: UpdateTagsByIcon_def Add_def)
qed

lemma ContainsKey_mem: "ContainsKey tags k = (\<exists>v. (k, v) \<in> set tags)"
  by (force simp: ContainsKey_iff)

lemma create_first_tags:
  "Add [] IMAGE_URL img = Inr [(IMAGE_URL, img)]"
  "Add [(IMAGE_URL, img)] WEBSITE url = Inr [(IMAGE_URL, img), (WEBSITE, url)]"
  by (simp_all add: Add_def ContainsKey_def IMAGE_URL_def WEBSITE_def ustr_eq_iff)

lemma create_tags_steps:
  obtains t2 t3 t4 where
    "SetTagByLanguage opts [(IMAGE_URL, ImageUrl poi), (WEBSITE, Url poi)] NAME (Title poi)
       language = Inr t2"
    "SetTagByLanguage opts t2 DESCRIPTION (Description poi) language = Inr t3"
    "UpdateTagsByIcon t3 (Icon poi) = Inr t4"
    "wf_tags t4"
    "AddPointOfInterest_tags opts poi language =
       Inr (filter (\<lambda>tag. \<not> IsNullOrWhiteSpace (snd tag)) t4)"
proof -
  let ?t1 = "[(IMAGE_URL, ImageUrl poi), (WEBSITE, Url poi)]"
  have wf1: "wf_tags ?t1"
    by (simp add: wf_tags_def IMAGE_URL_def WEBSITE_def ustr_eq_iff)
  obtain t2 where t2: "SetTagByLanguage opts ?t1 NAME (Title poi) language = Inr t2"
    by (simp add: SetTagByLanguage_writes)
  obtain t3 where t3: "SetTagByLanguage opts t2 DESCRIPTION (Description poi) language = Inr t3"
    by (simp add: SetTagByLanguage_writes)
  from wf1 t2 have wf2: "wf_tags t2" by (rule wf_tags_SetTagByLanguage)
  from wf2 t3 have wf3: "wf_tags t3" by (rule wf_tags_SetTagByLanguage)
  have absent: "\<not> ContainsKey t3 k" if c: "category_key k" for k
  proof -
    note nk = category_key_not_written [OF c]
    have "((k, v) \<in> set t3) = ((k, v) \<in> set ?t1)" for v
      using SetTagByLanguage_other [OF t2 nk(1) nk(5)] SetTagByLanguage_other [OF t3 nk(2) nk(6)]
      by simp
    with nk(3) nk(4) show ?thesis by (simp add: ContainsKey_mem)
  qed
  then obtain t4 where t4: "UpdateTagsByIcon t3 (Icon poi) = Inr t4"
    using UpdateTagsByIcon_total by blast
  from wf3 t4 have wf4: "wf_tags t4" by (rule wf_tags_UpdateTagsByIcon)
  have "AddPointOfInterest_tags opts poi language = RemoveEmptyTags t4"
    by (simp add: AddPointOfInterest_tags_def orRaise_def create_first_tags t2 t3 t4)
  also have "\<dots> = Inr (filter (\<lambda>tag. \<not> IsNullOrWhiteSpace (snd tag)) t4)"
    using wf4 by (rule RemoveEmptyTags_filter)
  finally show ?thesis using that t2 t3 t4 wf4 by blast
qed

lemma UpdateTagsByIcon_keeps:
  "UpdateTagsByIcon tags icon = Inr t \<Longrightarrow> (k, v) \<in> set tags \<Longrightarrow> (k, v) \<in> set t"
  by (auto dest!: UpdateTagsByIcon_cases)

lemma wf_tags_lookup: "wf_tags tags \<Longrightarrow> (k, v) \<in> set tags \<Longrightarrow> map_of tags k = Some v"
  by (simp add: wf_tags_def)

text \<open>
  C5, as the code has it. A create with the Hebrew title \<open>kinneret\<close> under the default
  language \<open>he\<close>, whatever the other fields and the requested language, yields a tag
  set with the base key \<open>name\<close> and also the key \<open>name:he\<close>, both holding the title.
\<close>

theorem create_kinneret_base_and_qualified:
  "\<exists>t. AddPointOfInterest_tags opts_he (poi\<lparr>Title := kinneret\<rparr>) language = Inr t \<and>
       map_of t (ustr ''name'') = Some kinneret \<and>
       map_of t (ustr ''name:he'') = Some kinneret"
proof -
  let ?poi = "poi\<lparr>Title := kinneret\<rparr>"
  let ?t1 = "[(IMAGE_URL, ImageUrl ?poi), (WEBSITE, Url ?poi)]"
  obtain t2 t3 t4 where
    t2: "SetTagByLanguage opts_he ?t1 NAME (Title ?poi) language = Inr t2" and
    t3: "SetTagByLanguage opts_he t2 DESCRIPTION (Description ?poi) language = Inr t3" and
    t4: "UpdateTagsByIcon t3 (Icon ?poi) = Inr t4" and
    wf4: "wf_tags t4" and
    r: "AddPointOfInterest_tags opts_he ?poi language =
       Inr (filter (\<lambda>tag. \<not> IsNullOrWhiteSpace (snd tag)) t4)"
    by (rule create_tags_steps)
  have t2_eq: "t2 = [(IMAGE_URL, ImageUrl ?poi), (WEBSITE, Url ?poi), (ustr ''name'', kinneret),
      (ustr ''name:he'', kinneret)]"
    using t2
    by (simp add: SetTagByLanguage_writes GetLanguage_kinneret opts_he_def ContainsKey_def
        set_Item_def NAME_def IMAGE_URL_def WEBSITE_def ustr_eq_iff ustr_append)
  have other: "k \<noteq> DESCRIPTION \<and> k \<noteq> DESCRIPTION @ ustr '':'' @ l"
    if "k = ustr ''name'' \<or> k = ustr ''name:he''" for k l
    using that by (auto simp: DESCRIPTION_def ustr_def)
  have in3: "(k, kinneret) \<in> set t3" if k: "k = ustr ''name'' \<or> k = ustr ''name:he''" for k
  proof -
    from other [OF k] have "((k, kinneret) \<in> set t3) = ((k, kinneret) \<in> set t2)"
      using SetTagByLanguage_other [OF t3] by blast
    with k show ?thesis by (auto simp: t2_eq)
  qed
  let ?t = "filter (\<lambda>tag. \<not> IsNullOrWhiteSpace (snd tag)) t4"
  have wf: "wf_tags ?t" using wf4 by (rule wf_tags_filter)
  have "map_of ?t k = Some kinneret" if k: "k = ustr ''name'' \<or> k = ustr ''name:he''" for k
  proof -
    from in3 [OF k] t4 have "(k, kinneret) \<in> set t4" by (blast intro: UpdateTagsByIcon_keeps)
    then have "(k, kinneret) \<in> set ?t" by (simp add: kinneret_not_blank)
    with wf show ?thesis by (rule wf_tags_lookup)
  qed
  with r show ?thesis by simp
qed

text \<open>
  C5 as stated fails: the tags of the created node contain the key \<open>name:he\<close>.
\<close>

theorem create_kinneret_counterexample:
  "DefaultLanguage opts_he = ustr ''he'' \<and> Title poi_kinneret = kinneret \<and>
   Location poi_kinneret = (32, 34.8) \<and>
   AddPointOfInterest_tags opts_he poi_kinneret (ustr ''he'') = Inr (Tags node_kinneret) \<and>
   map_of (Tags node_kinneret) (ustr ''name'') = Some kinneret \<and>
   map_of (Tags node_kinneret) (ustr ''name:he'') = Some kinneret"
proof -
  have "AddPointOfInterest_tags opts_he poi_kinneret (ustr ''he'') = Inr (Tags node_kinneret)"
    by (simp add: create_tags_kinneret node_kinneret_def)
  then show ?thesis
    by (simp add: opts_he_def poi_kinneret_def node_kinneret_def ustr_eq_iff)
qed

section \<open>The name written by an update\<close>

text \<open>
  C3 fails on the code. An update of a point of interest titled \<open>Mount\<close> and described
  as \<open>High\<close> hands the gateway an element whose name tag \<open>name:en\<close> holds the
  description \<open>High\<close>: line 118 passes \<open>Description\<close> where create passes \<open>Title\<close>.
  The title reaches no tag at all.
\<close>

theorem update_name_holds_description:
  "Title poi_mount = ustr ''Mount'' \<and> Description poi_mount = ustr ''High'' \<and>
   UpdatePointOfInterest env_ok opts_he poi_mount (ustr ''en'') =
     ([Call_GetPointOfInterestById (ustr ''17''), Call_GetNode (ustr ''17''),
       Call_CreateChangeset updateComment, Call_UpdateElement (ustr ''7'') element_mount,
       Call_CloseChangeset (ustr ''7''), Call_UpdateNamesData feature_viewpoint], Inr ()) \<and>
   map_of (Tags element_mount) (ustr ''name:en'') = Some (ustr ''High'') \<and>
   list_all (\<lambda>tag. snd tag \<noteq> ustr ''Mount'') (Tags element_mount) \<and>
   UpdatePointOfInterest_tags opts (poi\<lparr>Title := title\<rparr>) feature tags language =
     UpdatePointOfInterest_tags opts poi feature tags language"
proof -
  have "UpdatePointOfInterest_tags opts (poi\<lparr>Title := title\<rparr>) feature tags language =
      UpdatePointOfInterest_tags opts poi feature tags language"
    by (simp add: UpdatePointOfInterest_tags_def UpdatePointOfInterest_writes_def
        cong: if_cong option.case_cong)
  moreover have "Title poi_mount = ustr ''Mount''" "Description poi_mount = ustr ''High''"
    by (simp_all add: poi_mount_def)
  moreover have "map_of (Tags element_mount) (ustr ''name:en'') = Some (ustr ''High'')"
    "list_all (\<lambda>tag. snd tag \<noteq> ustr ''Mount'') (Tags element_mount)"
    by (simp_all add: element_mount_def tags_mount_def ustr_eq_iff)
  ultimately show ?thesis
    by (simp add: run_update_ok)
qed

section \<open>The icon step of an update\<close>








lemma run_update_peak_over_spring:
  "UpdatePointOfInterest env_ok opts_he poi_peak (ustr ''en'') =
     ([Call_GetPointOfInterestById (ustr ''17''), Call_GetNode (ustr ''17'')],
      Inl ArgumentException)"
proof -
  have "GetPointOfInterestById env_ok (Id poi_peak) = Inr feature_tint"
    "Id poi_peak = ustr ''17''"
    by (simp_all add: env_ok_def poi_peak_def poi_mount_def)
  moreover have "UpdatePointOfInterest_tags opts_he poi_peak feature_tint (Tags element_spring)
      (ustr ''en'') = Inl ArgumentException"
    by (simp add: element_spring_def update_tags_peak_changed)
  ultimately show ?thesis
    by (simp add: UpdatePointOfInterest_run Let_def fetch_node_17)
qed



section \<open>One value per key\<close>

text \<open>
  What holds of key uniqueness. A tag collection that holds each key once still does after
  a localized tag write, after an image or url write, after an icon step that returns, and
  at the end of the tag pipelines of create and update. A localized write and an image or
  url write put the new value under their key, replacing the value of a key that was
  present.
\<close>

lemma tag_keys_stay_unique:
  "wf_tags tags \<longrightarrow>
     (\<exists>t. SetTagByLanguage opts tags key newValue language = Inr t \<and> wf_tags t \<and>
          map_of t (if GetLanguage newValue language = DefaultLanguage opts then key
                    else key @ ustr '':'' @ GetLanguage newValue language) = Some newValue) \<and>
     wf_tags (set_Item tags key newValue) \<and>
     map_of (set_Item tags key newValue) key = Some newValue \<and>
     (ContainsKey tags key \<longrightarrow> map fst (set_Item tags key newValue) = map fst tags) \<and>
     (UpdateTagsByIcon tags icon = Inr t1 \<longrightarrow>
        wf_tags t1 \<and> (\<forall>k v. map_of tags k = Some v \<longrightarrow> map_of t1 k = Some v)) \<and>
     (AddPointOfInterest_tags opts poi language = Inr t2 \<longrightarrow> wf_tags t2) \<and>
     (UpdatePointOfInterest_tags opts poi feature tags language = Inr t3 \<longrightarrow> wf_tags t3)"
proof (intro impI conjI allI)
  assume wf: "wf_tags tags"
  have neq: "key \<noteq> key @ ustr '':'' @ l" for l
    by (simp add: ustr_def)
  obtain t where t: "SetTagByLanguage opts tags key newValue language = Inr t"
    by (simp add: SetTagByLanguage_writes)
  with wf have "wf_tags t" by (rule wf_tags_SetTagByLanguage)
  moreover from t have "map_of t (if GetLanguage newValue language = DefaultLanguage opts then key
        else key @ ustr '':'' @ GetLanguage newValue language) = Some newValue"
    using neq by (auto simp: SetTagByLanguage_writes Let_def map_of_set_Item)
  ultimately show "\<exists>t. SetTagByLanguage opts tags key newValue language = Inr t \<and> wf_tags t \<and>
      map_of t (if GetLanguage newValue language = DefaultLanguage opts then key
                else key @ ustr '':'' @ GetLanguage newValue language) = Some newValue"
    using t by blast
  from wf show "wf_tags (set_Item tags key newValue)" by (rule wf_tags_set_Item)
  show "map_of (set_Item tags key newValue) key = Some newValue" by (simp add: map_of_set_Item)
  show "map fst (set_Item tags key newValue) = map fst tags" if "ContainsKey tags key"
    using that by (simp add: keys_set_Item)
  show "wf_tags t1" if "UpdateTagsByIcon tags icon = Inr t1"
    using wf that by (rule wf_tags_UpdateTagsByIcon)
  show "map_of t1 k = Some v" if "UpdateTagsByIcon tags icon = Inr t1" "map_of tags k = Some v"
    for k v
    using that by (auto dest!: UpdateTagsByIcon_cases simp: map_of_snoc_absent)
  show "wf_tags t2" if "AddPointOfInterest_tags opts poi language = Inr t2"
    using that by (rule wf_tags_AddPointOfInterest_tags)
  show "wf_tags t3" if "UpdatePointOfInterest_tags opts poi feature tags language = Inr t3"
    using wf that by (rule wf_tags_UpdatePointOfInterest_tags)
qed

text \<open>
  C7 fails on the code. The icon step writes with \<open>Add\<close> and has no \<open>ContainsKey\<close>
  guard, where the localized write and the image and url writes replace. On an element
  tagged \<open>natural=spring\<close>, an update that changes the icon to \<open>icon-peak\<close> raises
  \<open>ArgumentException\<close> at line 226: the value under \<open>natural\<close> is not replaced, the
  update ends after the fetch of the node, and no changeset is opened. The indexer on the
  same key replaces the value. The append of \<open>natural=spring\<close> for \<open>icon-tint\<close> over
  \<open>natural=peak\<close> raises in the same way.
\<close>

theorem icon_append_over_present_key_raises:
  "map_of tags_spring (ustr ''natural'') = Some (ustr ''spring'') \<and>
   set_Item tags_spring (ustr ''natural'') (ustr ''peak'') =
     [(ustr ''name'', ustr ''Old''), (ustr ''natural'', ustr ''peak'')] \<and>
   UpdateTagsByIcon tags_spring (ustr ''icon-peak'') = Inl ArgumentException \<and>
   UpdateTagsByIcon [(ustr ''natural'', ustr ''peak'')] (ustr ''icon-tint'') =
     Inl ArgumentException \<and>
   Icon poi_peak = ustr ''icon-peak'' \<and>
   GetPointOfInterestById env_ok (Id poi_peak) = Inr feature_tint \<and>
   GetNode env_ok (Id poi_peak) = Inr element_spring \<and>
   Tags element_spring = tags_spring \<and>
   UpdatePointOfInterest env_ok opts_he poi_peak (ustr ''en'') =
     ([Call_GetPointOfInterestById (ustr ''17''), Call_GetNode (ustr ''17'')],
      Inl ArgumentException)"
proof -
  have "map_of tags_spring (ustr ''natural'') = Some (ustr ''spring'')"
    "set_Item tags_spring (ustr ''natural'') (ustr ''peak'') =
       [(ustr ''name'', ustr ''Old''), (ustr ''natural'', ustr ''peak'')]"
    "UpdateTagsByIcon tags_spring (ustr ''icon-peak'') = Inl ArgumentException"
    "UpdateTagsByIcon [(ustr ''natural'', ustr ''peak'')] (ustr ''icon-tint'') =
       Inl ArgumentException"
    by (simp_all add: UpdateTagsByIcon_def Add_def set_Item_def ContainsKey_def tags_spring_def
        ustr_eq_iff)
  moreover have "Icon poi_peak = ustr ''icon-peak''"
    "GetPointOfInterestById env_ok (Id poi_peak) = Inr feature_tint"
    "GetNode env_ok (Id poi_peak) = Inr element_spring"
    "Tags element_spring = tags_spring"
    by (simp_all add: Icon_examples env_ok_def element_spring_def)
  ultimately show ?thesis
    by (simp add: run_update_peak_over_spring)
qed

end
